theory Spec2Isabelle
  imports Main
begin

section \<open>JavaScript values\<close>

text \<open>
  The page receives every backend payload as \<open>any\<close>. A value of that type is modelled
  by the datatype below; an object is an association list of its own properties (the
  first binding of a key is the one that is read). Numbers are only carried through the
  page, never computed on, and are kept as integers. Text is a \<open>string\<close> holding the
  UTF-8 encoding of the JavaScript string: a code point beyond ASCII is two to four
  bytes. (The \<open>length\<close> of a string therefore counts bytes here; the page only tests a
  length for being non-zero, which does not depend on the unit.)
\<close>

datatype json =
    JUndefined
  | JNull
  | JBool bool
  | JNum int
  | JStr string
  | JArr "json list"
  | JObj "(string \<times> json) list"

datatype error = NetworkError | TypeError

fun nullish :: "json \<Rightarrow> bool" where
  "nullish JUndefined = True"
| "nullish JNull = True"
| "nullish _ = False"

text \<open>
  \<open>field v k\<close> is the property read \<open>v.k\<close> on a value that is neither \<open>null\<close> nor
  \<open>undefined\<close> (on those two the read throws a TypeError, which each caller below
  tests for with \<open>nullish\<close> first). Of the property names the page reads, only
  \<open>length\<close> exists on arrays and strings; every other read on a non-object gives
  \<open>undefined\<close>.
\<close>

fun field :: "json \<Rightarrow> string \<Rightarrow> json" where
  "field (JObj kvs) k = (case map_of kvs k of None \<Rightarrow> JUndefined | Some v \<Rightarrow> v)"
| "field (JArr xs) k = (if k = ''length'' then JNum (int (length xs)) else JUndefined)"
| "field (JStr s) k = (if k = ''length'' then JNum (int (length s)) else JUndefined)"
| "field _ k = JUndefined"

text \<open>\<open>v?.k\<close>: \<open>undefined\<close> on \<open>null\<close> and \<open>undefined\<close>.\<close>

definition opt_member :: "json \<Rightarrow> string \<Rightarrow> json" where
  "opt_member v k = (if nullish v then JUndefined else field v k)"

text \<open>\<open>v ?? d\<close>.\<close>

definition coalesce :: "json \<Rightarrow> json \<Rightarrow> json" where
  "coalesce v d = (if nullish v then d else v)"

fun truthy :: "json \<Rightarrow> bool" where
  "truthy JUndefined = False"
| "truthy JNull = False"
| "truthy (JBool b) = b"
| "truthy (JNum n) = (n \<noteq> 0)"
| "truthy (JStr s) = (s \<noteq> [])"
| "truthy (JArr xs) = True"
| "truthy (JObj kvs) = True"

subsection \<open>\<open>String.prototype.trim\<close>\<close>

text \<open>
  \<open>trim\<close> removes from both ends every code point that ECMAScript counts as
  WhiteSpace or LineTerminator. On text held as UTF-8 these are

  \<^item> one byte: U+0009 TAB, U+000A LF, U+000B VT, U+000C FF, U+000D CR, U+0020 SPACE;
  \<^item> two bytes: U+00A0 NO-BREAK SPACE (\<open>C2 A0\<close>);
  \<^item> three bytes: U+1680 (\<open>E1 9A 80\<close>), U+2000 to U+200A (\<open>E2 80 80\<close> to \<open>E2 80 8A\<close>),
    U+2028 and U+2029 (\<open>E2 80 A8\<close>, \<open>E2 80 A9\<close>), U+202F (\<open>E2 80 AF\<close>),
    U+205F (\<open>E2 81 9F\<close>), U+3000 (\<open>E3 80 80\<close>) and U+FEFF (\<open>EF BB BF\<close>).

  No encoding of one code point is the tail of the encoding of another, so reading
  these byte sequences off the end of the text reads whole code points.
\<close>

definition ascii_space :: "char \<Rightarrow> bool" where
  "ascii_space a = (a \<in> {CHR 0x09, CHR 0x0A, CHR 0x0B, CHR 0x0C, CHR 0x0D, CHR 0x20})"

definition space2 :: "char \<Rightarrow> char \<Rightarrow> bool" where
  "space2 a b = (a = CHR 0xC2 \<and> b = CHR 0xA0)"

definition space3 :: "char \<Rightarrow> char \<Rightarrow> char \<Rightarrow> bool" where
  "space3 a b c =
     (a = CHR 0xE1 \<and> b = CHR 0x9A \<and> c = CHR 0x80
      \<or> a = CHR 0xE2 \<and> b = CHR 0x80 \<and>
          c \<in> {CHR 0x80, CHR 0x81, CHR 0x82, CHR 0x83, CHR 0x84, CHR 0x85, CHR 0x86, CHR 0x87,
               CHR 0x88, CHR 0x89, CHR 0x8A, CHR 0xA8, CHR 0xA9, CHR 0xAF}
      \<or> a = CHR 0xE2 \<and> b = CHR 0x81 \<and> c = CHR 0x9F
      \<or> a = CHR 0xE3 \<and> b = CHR 0x80 \<and> c = CHR 0x80
      \<or> a = CHR 0xEF \<and> b = CHR 0xBB \<and> c = CHR 0xBF)"

text \<open>Leading white space, one code point at a time.\<close>

fun trimStart :: "string \<Rightarrow> string" where
  "trimStart (a # b # c # s) =
     (if ascii_space a then trimStart (b # c # s)
      else if space2 a b then trimStart (c # s)
      else if space3 a b c then trimStart s
      else a # b # c # s)"
| "trimStart [a, b] =
     (if ascii_space a then trimStart [b] else if space2 a b then [] else [a, b])"
| "trimStart [a] = (if ascii_space a then [] else [a])"
| "trimStart [] = []"

text \<open>Trailing white space, on the reversed text (its first byte is the text's last).\<close>

fun trimEnd_rev :: "string \<Rightarrow> string" where
  "trimEnd_rev (c # b # a # s) =
     (if ascii_space c then trimEnd_rev (b # a # s)
      else if space2 b c then trimEnd_rev (a # s)
      else if space3 a b c then trimEnd_rev s
      else c # b # a # s)"
| "trimEnd_rev [b, a] =
     (if ascii_space b then trimEnd_rev [a] else if space2 a b then [] else [b, a])"
| "trimEnd_rev [a] = (if ascii_space a then [] else [a])"
| "trimEnd_rev [] = []"

definition trim :: "string \<Rightarrow> string" where
  "trim s = rev (trimEnd_rev (rev (trimStart s)))"

section \<open>The Message model\<close>

text \<open>
  \<open>interface Message\<close>. The interface types \<open>role\<close> as \<open>"user" | "assistant"\<close> and
  \<open>content\<close> as \<open>string\<close>, but the fields are filled from \<open>any\<close> without a run-time
  check, so each field holds a JavaScript value. An optional field that is absent is
  \<open>JUndefined\<close>.
\<close>

record message =
  role :: json
  content :: json
  type :: json
  policies :: json
  extracted :: json
  example :: json
  citation :: json
  policy_name :: json
  found :: json

definition GREETING_content :: string where
  "GREETING_content =
     ''Hi! I'' @ [CHR 0x27] @ ''m your AI health insurance advisor. Tell me about your health needs, budget, and family size ''
     @ [CHR 0xE2, CHR 0x80, CHR 0x94] @ '' I'' @ [CHR 0x27] @ ''ll find and rank the best policies for you.''
     @ [CHR 0x0A, CHR 0x0A] @ ''For example: '' @ [CHR 0x22]
     @ ''I need maternity coverage, have diabetes, budget '' @ [CHR 0xE2, CHR 0x82, CHR 0xB9]
     @ ''18k/year, family of 3'' @ [CHR 0x22]"

definition GREETING :: message where
  "GREETING = \<lparr> role = JStr ''assistant'', content = JStr GREETING_content,
     type = JStr ''question'', policies = JUndefined, extracted = JUndefined,
     example = JUndefined, citation = JUndefined, policy_name = JUndefined,
     found = JUndefined \<rparr>"

subsection \<open>Reconstruction from stored records\<close>

text \<open>
  The arrow function mapped over \<open>data.messages\<close> in \<open>initSession\<close> and in
  \<open>switchSession\<close> (the two are the same text):
  \<^verbatim>\<open>(m: any) => ({ role: m.role as "user" | "assistant", content: m.content,
                  type: m.metadata?.type, policies: m.metadata?.policies,
                  extracted: m.metadata?.extracted_requirements })\<close>
  The cast is erased at run time. \<open>m.role\<close> throws when \<open>m\<close> is \<open>null\<close> or
  \<open>undefined\<close>; after it every further read of \<open>m\<close> succeeds.
\<close>

definition restore_message :: "json \<Rightarrow> error + message" where
  "restore_message m =
     (if nullish m then Inl TypeError
      else Inr \<lparr> role = field m ''role'', content = field m ''content'',
        type = opt_member (field m ''metadata'') ''type'',
        policies = opt_member (field m ''metadata'') ''policies'',
        extracted = opt_member (field m ''metadata'') ''extracted_requirements'',
        example = JUndefined, citation = JUndefined, policy_name = JUndefined,
        found = JUndefined \<rparr>)"

text \<open>\<open>data.messages.map(...)\<close>: the first record that throws aborts the whole map.\<close>

fun restored :: "json list \<Rightarrow> error + message list" where
  "restored [] = Inr []"
| "restored (m # ms) =
     (case restore_message m of
        Inl e \<Rightarrow> Inl e
      | Inr x \<Rightarrow> (case restored ms of Inl e \<Rightarrow> Inl e | Inr xs \<Rightarrow> Inr (x # xs)))"

section \<open>The page state\<close>

text \<open>
  The \<open>useState\<close> cells of \<open>DiscoverPage\<close> that the session logic reads or writes, and
  the \<open>localStorage\<close> slot \<open>policyai_session_id\<close> (\<open>storage\<close>; \<open>None\<close> when the key is
  absent). A selected policy \<open>{id, name}\<close> is the pair \<open>(id, name)\<close>.
\<close>

record page =
  messages :: "message list"
  input :: string
  loading :: bool
  sessionId :: "string option"
  sessionLoading :: bool
  showHistory :: bool
  sessionPolicyIds :: json
  selected :: "(string \<times> string) list"
  compareResult :: json
  storage :: "string option"

definition initial_page :: "string option \<Rightarrow> page" where
  "initial_page slot = \<lparr> messages = [GREETING], input = [], loading = False,
     sessionId = None, sessionLoading = True, showHistory = False,
     sessionPolicyIds = JArr [], selected = [], compareResult = JNull,
     storage = slot \<rparr>"

section \<open>Session Manager\<close>

text \<open>
  A backend call is modelled by its outcome: \<open>Inl\<close> when the awaited promise rejects.
  \<open>getChatSession\<close> yields the array \<open>data.messages\<close> (a missing array behaves as the
  empty one: \<open>data?.messages?.length > 0\<close> is false for both); \<open>createChatSession\<close>
  yields \<open>s.session_id\<close>.
\<close>

text \<open>The inner \<open>try\<close> block of \<open>initSession\<close>: \<open>Inr\<close> is the \<open>return\<close>, \<open>Inl\<close> a throw.\<close>

definition restore_attempt :: "(string \<Rightarrow> error + json list) \<Rightarrow> string \<Rightarrow> page \<Rightarrow> error + page" where
  "restore_attempt getChatSession stored st =
     (case getChatSession stored of
        Inl e \<Rightarrow> Inl e
      | Inr msgs \<Rightarrow>
          if msgs \<noteq> [] then
            (case restored msgs of
               Inl e \<Rightarrow> Inl e
             | Inr ms \<Rightarrow> Inr (st\<lparr> messages := ms, sessionId := Some stored, sessionLoading := False \<rparr>))
          else Inr (st\<lparr> sessionId := Some stored, sessionLoading := False \<rparr>))"

text \<open>\<open>// Create new session\<close> with the outer \<open>catch\<close> and \<open>finally\<close>.\<close>

definition create_session :: "error + string \<Rightarrow> page \<Rightarrow> page" where
  "create_session created st =
     (case created of
        Inr new \<Rightarrow> st\<lparr> storage := Some new, sessionId := Some new, sessionLoading := False \<rparr>
      | Inl e \<Rightarrow> st\<lparr> sessionLoading := False \<rparr>)"

definition initSession :: "(string \<Rightarrow> error + json list) \<Rightarrow> error + string \<Rightarrow> page \<Rightarrow> page" where
  "initSession getChatSession created st =
     (let st0 = st\<lparr> sessionLoading := True \<rparr> in
      case storage st0 of
        None \<Rightarrow> create_session created st0
      | Some stored \<Rightarrow>
          if stored = [] then create_session created st0
          else (case restore_attempt getChatSession stored st0 of
                  Inr st1 \<Rightarrow> st1
                | Inl e \<Rightarrow> create_session created (st0\<lparr> storage := None \<rparr>)))"

definition switchSession :: "string \<Rightarrow> error + json list \<Rightarrow> page \<Rightarrow> page" where
  "switchSession sid fetched st =
     (let st0 = st\<lparr> showHistory := False, loading := False \<rparr> in
      case fetched of
        Inl e \<Rightarrow> st0
      | Inr msgs \<Rightarrow>
          (case (if msgs \<noteq> [] then restored msgs else Inr [GREETING]) of
             Inl e \<Rightarrow> st0
           | Inr ms \<Rightarrow> st0\<lparr> messages := ms, sessionId := Some sid, storage := Some sid,
                          selected := [], compareResult := JNull \<rparr>))"

definition startNewSession :: "error + string \<Rightarrow> page \<Rightarrow> page" where
  "startNewSession created st =
     (let st0 = st\<lparr> showHistory := False \<rparr> in
      case created of
        Inr new \<Rightarrow> st0\<lparr> storage := Some new, sessionId := Some new, messages := [GREETING],
                       selected := [], compareResult := JNull \<rparr>
      | Inl e \<Rightarrow> st0\<lparr> messages := [GREETING] \<rparr>)"

section \<open>Dispatch Router\<close>

datatype request =
    SendChatMessage string string
  | DiscoverChat "(json \<times> json) list" json

definition user_message :: "string \<Rightarrow> message" where
  "user_message userText = \<lparr> role = JStr ''user'', content = JStr userText,
     type = JUndefined, policies = JUndefined, extracted = JUndefined,
     example = JUndefined, citation = JUndefined, policy_name = JUndefined,
     found = JUndefined \<rparr>"

definition APOLOGY :: message where
  "APOLOGY = \<lparr> role = JStr ''assistant'',
     content = JStr ''Sorry, something went wrong. Please try again.'',
     type = JStr ''question'', policies = JUndefined, extracted = JUndefined,
     example = JUndefined, citation = JUndefined, policy_name = JUndefined,
     found = JUndefined \<rparr>"

definition assistant_message :: "json \<Rightarrow> message" where
  "assistant_message data = \<lparr> role = JStr ''assistant'',
     content = coalesce (field data ''message'') (JStr []),
     type = field data ''type'', policies = field data ''policies'',
     extracted = field data ''extracted_requirements'',
     example = field data ''example'', citation = field data ''citation'',
     policy_name = field data ''policy_name'', found = field data ''found'' \<rparr>"

text \<open>
  \<open>sendMessage\<close> up to its \<open>await\<close>: the guard, the appended user turn, the flag, and
  the backend call that is issued (\<open>None\<close> when the guard returns). \<open>if (sessionId)\<close>
  is false for \<open>null\<close> and for the empty string.
\<close>

definition sendMessage_start :: "string option \<Rightarrow> page \<Rightarrow> page \<times> request option" where
  "sendMessage_start text st =
     (let userText = trim (case text of None \<Rightarrow> input st | Some t \<Rightarrow> t) in
      if userText = [] \<or> loading st then (st, None)
      else
        let userMsg = user_message userText;
            st1 = st\<lparr> input := [], messages := messages st @ [userMsg], loading := True \<rparr>
        in (st1,
            Some (case sessionId st of
                    Some sid \<Rightarrow>
                      if sid \<noteq> [] then SendChatMessage sid userText
                      else DiscoverChat (map (\<lambda>m. (role m, content m)) (messages st @ [userMsg]))
                             (sessionPolicyIds st)
                  | None \<Rightarrow>
                      DiscoverChat (map (\<lambda>m. (role m, content m)) (messages st @ [userMsg]))
                        (sessionPolicyIds st))))"

text \<open>
  The rest of the \<open>try\<close> block once \<open>data\<close> has arrived. \<open>data.uploaded_policy_ids\<close>
  throws on a \<open>null\<close> body before any state is written; after it no read can throw.
\<close>

definition send_success :: "json \<Rightarrow> page \<Rightarrow> error + page" where
  "send_success data st =
     (if nullish data then Inl TypeError
      else
        let st1 = (if truthy (opt_member (field data ''uploaded_policy_ids'') ''length'')
                   then st\<lparr> sessionPolicyIds := field data ''uploaded_policy_ids'' \<rparr>
                   else st)
        in Inr (st1\<lparr> messages := messages st1 @ [assistant_message data] \<rparr>))"

text \<open>\<open>sendMessage\<close> from the resolution of the awaited call, with \<open>catch\<close> and \<open>finally\<close>.\<close>

definition sendMessage_resolve :: "error + json \<Rightarrow> page \<Rightarrow> page" where
  "sendMessage_resolve outcome st =
     (case (case outcome of Inl e \<Rightarrow> Inl e | Inr data \<Rightarrow> send_success data st) of
        Inr st1 \<Rightarrow> st1\<lparr> loading := False \<rparr>
      | Inl e \<Rightarrow> st\<lparr> messages := messages st @ [APOLOGY], loading := False \<rparr>)"

text \<open>
  One whole send with nothing else running in between, against a backend that answers
  each request; the second component lists the backend calls that were made.
\<close>

definition sendMessage :: "(request \<Rightarrow> error + json) \<Rightarrow> string option \<Rightarrow> page \<Rightarrow> page \<times> request list" where
  "sendMessage backend text st =
     (case sendMessage_start text st of
        (st1, None) \<Rightarrow> (st1, [])
      | (st1, Some rq) \<Rightarrow> (sendMessage_resolve (backend rq) st1, [rq]))"

text \<open>
  The message that the resolution of a send appends: the fixed apology when the call
  rejects or the body is \<open>null\<close>, the normalised response otherwise.
\<close>

definition reply_message :: "error + json \<Rightarrow> message" where
  "reply_message outcome =
     (case outcome of
        Inl e \<Rightarrow> APOLOGY
      | Inr data \<Rightarrow> if nullish data then APOLOGY else assistant_message data)"

section \<open>Selection Set\<close>

text \<open>The updater passed to \<open>setSelected\<close> in \<open>toggleCompare\<close>.\<close>

definition toggle :: "string \<Rightarrow> string \<Rightarrow> (string \<times> string) list \<Rightarrow> (string \<times> string) list" where
  "toggle pid name prev =
     (case find (\<lambda>p. fst p = pid) prev of
        Some p \<Rightarrow> filter (\<lambda>p. fst p \<noteq> pid) prev
      | None \<Rightarrow> if length prev \<ge> 3 then prev else prev @ [(pid, name)])"

definition toggleCompare :: "string \<Rightarrow> string \<Rightarrow> page \<Rightarrow> page" where
  "toggleCompare pid name st =
     st\<lparr> selected := toggle pid name (selected st), compareResult := JNull \<rparr>"

fun toggles :: "(string \<times> string) list \<Rightarrow> (string \<times> string) list \<Rightarrow> (string \<times> string) list" where
  "toggles [] prev = prev"
| "toggles ((pid, name) # calls) prev = toggles calls (toggle pid name prev)"

section \<open>The event loop\<close>

text \<open>
  The page runs on one event loop: between the start of a send and the settling of its
  awaited call, any other handler may run. An event is one handler call (for
  \<open>sendMessage\<close>, the part up to its \<open>await\<close>) or the settling of an awaited send;
  \<open>Typed\<close> is the \<open>onChange\<close> of the text area (\<open>setInput\<close>). \<open>step\<close> gives the page
  after the event and the chat calls the event issues; \<open>run\<close> does so for a sequence.
\<close>

datatype event =
    Send "string option"
  | Resolve "error + json"
  | Switch string "error + json list"
  | NewSession "error + string"
  | Toggle string string
  | Typed string

fun step :: "event \<Rightarrow> page \<Rightarrow> page \<times> request list" where
  "step (Send text) st =
     (case sendMessage_start text st of (st1, None) \<Rightarrow> (st1, []) | (st1, Some rq) \<Rightarrow> (st1, [rq]))"
| "step (Resolve outcome) st = (sendMessage_resolve outcome st, [])"
| "step (Switch sid fetched) st = (switchSession sid fetched st, [])"
| "step (NewSession created) st = (startNewSession created st, [])"
| "step (Toggle pid name) st = (toggleCompare pid name st, [])"
| "step (Typed s) st = (st\<lparr> input := s \<rparr>, [])"

fun run :: "event list \<Rightarrow> page \<Rightarrow> page \<times> request list" where
  "run [] st = (st, [])"
| "run (ev # evs) st =
     (case step ev st of (st1, rqs) \<Rightarrow> (case run evs st1 of (st2, rqs') \<Rightarrow> (st2, rqs @ rqs')))"

text \<open>
  The events that never write the in-flight flag to \<open>false\<close>: all but the settling of
  a send (\<open>finally\<close>, line 238) and \<open>switchSession\<close> (line 136).
\<close>

fun keeps_flag :: "event \<Rightarrow> bool" where
  "keeps_flag (Resolve outcome) = False"
| "keeps_flag (Switch sid fetched) = False"
| "keeps_flag ev = True"

text \<open>
  The events that never replace the Conversation Store: all but \<open>switchSession\<close> and
  \<open>startNewSession\<close>, the two handlers that call \<open>setMessages\<close> with a whole list.
\<close>

fun keeps_store :: "event \<Rightarrow> bool" where
  "keeps_store (Switch sid fetched) = False"
| "keeps_store (NewSession created) = False"
| "keeps_store ev = True"

section \<open>Sample records and states\<close>

definition stored_turns :: "json list" where
  "stored_turns =
     [JObj [(''role'', JStr ''user''), (''content'', JStr ''what is a deductible'')],
      JObj [(''role'', JStr ''assistant''), (''content'', JStr ''It is the part you pay.''),
            (''metadata'', JObj [(''type'', JStr ''explanation''),
               (''example'', JStr ''You pay 5000 first.''), (''found'', JBool True)])]]"

definition explanation_record :: json where
  "explanation_record =
     JObj [(''role'', JStr ''assistant''), (''content'', JStr ''It is the part you pay.''),
           (''metadata'', JObj [(''type'', JStr ''explanation''),
              (''example'', JStr ''You pay 5000 first.'')])]"

definition odd_records :: "json list" where
  "odd_records =
     [JObj [(''role'', JStr ''system''), (''content'', JStr ''be brief'')],
      JObj [(''role'', JStr ''assistant''), (''metadata'', JObj [(''type'', JStr ''chart'')])]]"

definition results_reply :: json where
  "results_reply = JObj [(''type'', JStr ''results''), (''message'', JStr ''Found 1 plan''),
     (''uploaded_policy_ids'', JArr [JStr ''p2''])]"

text \<open>
  A backend that answers every send with \<open>results_reply\<close>, one that answers without
  policy ids, a session fetch that always rejects, and a backend that rejects every send.
\<close>

definition results_backend :: "request \<Rightarrow> error + json" where
  "results_backend rq = Inr results_reply"

definition hello_backend :: "request \<Rightarrow> error + json" where
  "hello_backend rq = Inr (JObj [(''message'', JStr ''hello'')])"

definition failing_getChatSession :: "string \<Rightarrow> error + json list" where
  "failing_getChatSession sid = Inl NetworkError"


text \<open>A page in persistent mode on session \<open>s1\<close>, with one policy id accumulated.\<close>

definition ready_page :: page where
  "ready_page = (initial_page (Some ''s1''))
     \<lparr> sessionId := Some ''s1'', sessionLoading := False, sessionPolicyIds := JArr [JStr ''p1''] \<rparr>"

text \<open>The same page after a result turn, with two policies selected and compared.\<close>

definition comparing_page :: page where
  "comparing_page = ready_page
     \<lparr> messages := [GREETING, user_message ''family plan'', assistant_message results_reply],
       selected := [(''p1'', ''Plan A''), (''p2'', ''Plan B'')],
       compareResult := JObj [(''policies'', JArr [JStr ''p1'', JStr ''p2''])] \<rparr>"

text \<open>A page in stateless mode (no slot, no session) after one result turn.\<close>

definition stateless_page :: page where
  "stateless_page = (initial_page None)
     \<lparr> sessionLoading := False,
       messages := [GREETING, user_message ''family plan'', assistant_message results_reply],
       sessionPolicyIds := JArr [JStr ''p2''] \<rparr>"

text \<open>The utterance \<open>more\<close> with a no-break space in front and a space behind.\<close>

definition padded_more :: string where
  "padded_more = [CHR 0xC2, CHR 0xA0] @ ''more ''"


definition switch_then_send :: "event list" where
  "switch_then_send = [Send (Some ''more''), Switch ''s2'' (Inr []), Send (Some ''again'')]"

text \<open>Typing, two send attempts and a toggle; and a toggle with the reply of another send.\<close>

definition quiet_events :: "event list" where
  "quiet_events = [Typed ''again'', Send None, Toggle ''p1'' ''Plan A'', Send (Some ''once more'')]"


definition four_picks :: "(string \<times> string) list" where
  "four_picks = [(''p1'', ''Plan A''), (''p2'', ''Plan B''), (''p3'', ''Plan C''), (''p4'', ''Plan D'')]"

definition one_pick :: "(string \<times> string) list" where
  "one_pick = [(''p1'', ''Plan A'')]"

section \<open>Reconstruction of messages from stored records\<close>

lemma restored_all_ok:
  "\<forall>m\<in>set recs. \<not> nullish m \<Longrightarrow>
     restored recs = Inr (map (\<lambda>m. \<lparr> role = field m ''role'', content = field m ''content'',
        type = opt_member (field m ''metadata'') ''type'',
        policies = opt_member (field m ''metadata'') ''policies'',
        extracted = opt_member (field m ''metadata'') ''extracted_requirements'',
        example = JUndefined, citation = JUndefined, policy_name = JUndefined,
        found = JUndefined \<rparr>) recs)"
  by (induction recs) (simp_all add: restore_message_def)

lemma restored_nullish_fails:
  "\<exists>m\<in>set recs. nullish m \<Longrightarrow> restored recs = Inl TypeError"
proof (induction recs)
  case Nil
  then show ?case by simp
next
  case (Cons m ms)
  show ?case
  proof (cases "nullish m")
    case True
    then show ?thesis by (simp add: restore_message_def)
  next
    case False
    with Cons.prems have "\<exists>m\<in>set ms. nullish m" by simp
    with Cons.IH have "restored ms = Inl TypeError" by simp
    with False show ?thesis by (simp add: restore_message_def)
  qed
qed

lemma role_not_nullish:
  "field m ''role'' \<in> {JStr ''user'', JStr ''assistant''} \<Longrightarrow> \<not> nullish m"
  by (cases m) auto

text \<open>
  Claim C1, as the code has it. For every list of stored records whose roles are
  \<open>user\<close> or \<open>assistant\<close>, reconstruction yields exactly one Message per record, in the
  same order, with the record's role and content and with the metadata entries \<open>type\<close>,
  \<open>policies\<close> and \<open>extracted_requirements\<close> (each \<open>undefined\<close> when the record has no
  such entry). The explanation fields \<open>example\<close>, \<open>citation\<close>, \<open>policy_name\<close> and
  \<open>found\<close> are not read from the record: they are \<open>undefined\<close> in every reconstructed
  Message.
\<close>

theorem restored_preserves_stored_fields:
  assumes "\<forall>m\<in>set recs. field m ''role'' \<in> {JStr ''user'', JStr ''assistant''}"
  shows "\<exists>ms. restored recs = Inr ms \<and> length ms = length recs \<and>
           (\<forall>i<length recs.
              role (ms ! i) = field (recs ! i) ''role'' \<and>
              content (ms ! i) = field (recs ! i) ''content'' \<and>
              type (ms ! i) = opt_member (field (recs ! i) ''metadata'') ''type'' \<and>
              policies (ms ! i) = opt_member (field (recs ! i) ''metadata'') ''policies'' \<and>
              extracted (ms ! i) = opt_member (field (recs ! i) ''metadata'') ''extracted_requirements'' \<and>
              example (ms ! i) = JUndefined \<and> citation (ms ! i) = JUndefined \<and>
              policy_name (ms ! i) = JUndefined \<and> found (ms ! i) = JUndefined)"
proof -
  from assms have "\<forall>m\<in>set recs. \<not> nullish m"
    using role_not_nullish by blast
  then show ?thesis
    using restored_all_ok [of recs] by simp
qed

text \<open>
  The theorem above at a stored user turn followed by a stored explanation turn: two
  Messages come back, the second of kind \<open>explanation\<close> and without its example.
\<close>

theorem restored_preserves_stored_fields_witness:
  "map (\<lambda>m. field m ''role'') stored_turns = [JStr ''user'', JStr ''assistant''] \<and>
   (\<exists>ms. restored stored_turns = Inr ms \<and> length ms = 2 \<and>
      type (ms ! 1) = JStr ''explanation'' \<and> example (ms ! 1) = JUndefined)"
proof -
  have r: "map (\<lambda>m. field m ''role'') stored_turns = [JStr ''user'', JStr ''assistant'']"
    by (simp add: stored_turns_def)
  have h: "\<forall>m\<in>set stored_turns. field m ''role'' \<in> {JStr ''user'', JStr ''assistant''}"
    by (simp add: stored_turns_def)
  from restored_preserves_stored_fields [OF h] obtain ms where
    ms: "restored stored_turns = Inr ms" "length ms = length stored_turns"
      "\<forall>i<length stored_turns.
              role (ms ! i) = field (stored_turns ! i) ''role'' \<and>
              content (ms ! i) = field (stored_turns ! i) ''content'' \<and>
              type (ms ! i) = opt_member (field (stored_turns ! i) ''metadata'') ''type'' \<and>
              policies (ms ! i) = opt_member (field (stored_turns ! i) ''metadata'') ''policies'' \<and>
              extracted (ms ! i) = opt_member (field (stored_turns ! i) ''metadata'') ''extracted_requirements'' \<and>
              example (ms ! i) = JUndefined \<and> citation (ms ! i) = JUndefined \<and>
              policy_name (ms ! i) = JUndefined \<and> found (ms ! i) = JUndefined"
    by blast
  have len: "length stored_turns = 2" by (simp add: stored_turns_def)
  from ms(3) len have "type (ms ! 1) = opt_member (field (stored_turns ! 1) ''metadata'') ''type''"
    and "example (ms ! 1) = JUndefined" by simp_all
  moreover have "opt_member (field (stored_turns ! 1) ''metadata'') ''type'' = JStr ''explanation''"
    by (simp add: stored_turns_def opt_member_def)
  ultimately show ?thesis using r ms(1,2) len by auto
qed

text \<open>
  Claim C1 as stated fails: a stored assistant record whose metadata carries an
  \<open>example\<close> is reconstructed into a Message whose \<open>example\<close> is \<open>undefined\<close>.
\<close>

theorem restored_drops_explanation_fields:
  "field explanation_record ''role'' = JStr ''assistant'' \<and>
   opt_member (field explanation_record ''metadata'') ''example'' = JStr ''You pay 5000 first.'' \<and>
   restored [explanation_record]
     = Inr [\<lparr> role = JStr ''assistant'', content = JStr ''It is the part you pay.'',
          type = JStr ''explanation'', policies = JUndefined, extracted = JUndefined,
          example = JUndefined, citation = JUndefined, policy_name = JUndefined,
          found = JUndefined \<rparr>]"
  by (simp add: explanation_record_def restore_message_def opt_member_def)

text \<open>
  Claim C3, as the code has it. Reconstruction never fails because of a role: it raises
  (the TypeError of the property read) exactly when some record is itself \<open>null\<close> or
  \<open>undefined\<close>. Otherwise every record is mapped, its role passed through unchanged
  whatever it is, and an unknown kind or a missing payload entry passed through as it
  is stored or as \<open>undefined\<close>.
\<close>

theorem restored_fails_iff_nullish_record:
  "((\<exists>e. restored recs = Inl e) \<longleftrightarrow> (\<exists>m\<in>set recs. nullish m)) \<and>
   (\<not> (\<exists>m\<in>set recs. nullish m) \<longrightarrow>
      restored recs = Inr (map (\<lambda>m. \<lparr> role = field m ''role'', content = field m ''content'',
        type = opt_member (field m ''metadata'') ''type'',
        policies = opt_member (field m ''metadata'') ''policies'',
        extracted = opt_member (field m ''metadata'') ''extracted_requirements'',
        example = JUndefined, citation = JUndefined, policy_name = JUndefined,
        found = JUndefined \<rparr>) recs))"
proof (cases "\<exists>m\<in>set recs. nullish m")
  case True
  then show ?thesis using restored_nullish_fails [of recs] by simp
next
  case False
  then have "\<forall>m\<in>set recs. \<not> nullish m" by simp
  from restored_all_ok [OF this] False show ?thesis by simp
qed

text \<open>
  The theorem above at a record of role \<open>system\<close> followed by a record of unknown kind
  without content: no error; and with a \<open>null\<close> record appended: an error.
\<close>

theorem restored_fails_iff_nullish_record_witness:
  "\<not> (\<exists>m\<in>set odd_records. nullish m) \<and>
   \<not> (\<exists>e. restored odd_records = Inl e) \<and>
   map role (projr (restored odd_records)) = [JStr ''system'', JStr ''assistant''] \<and>
   map type (projr (restored odd_records)) = [JUndefined, JStr ''chart''] \<and>
   map content (projr (restored odd_records)) = [JStr ''be brief'', JUndefined] \<and>
   (\<exists>e. restored (odd_records @ [JNull]) = Inl e)"
proof -
  have h: "\<not> (\<exists>m\<in>set odd_records. nullish m)"
    by (simp add: odd_records_def)
  have n: "\<exists>m\<in>set (odd_records @ [JNull]). nullish m" by simp
  from restored_fails_iff_nullish_record [of odd_records] h
  have 1: "\<not> (\<exists>e. restored odd_records = Inl e)"
    and 2: "restored odd_records = Inr (map (\<lambda>m. \<lparr> role = field m ''role'', content = field m ''content'',
        type = opt_member (field m ''metadata'') ''type'',
        policies = opt_member (field m ''metadata'') ''policies'',
        extracted = opt_member (field m ''metadata'') ''extracted_requirements'',
        example = JUndefined, citation = JUndefined, policy_name = JUndefined,
        found = JUndefined \<rparr>) odd_records)"
    by blast+
  from restored_fails_iff_nullish_record [of "odd_records @ [JNull]"] n
  have 3: "\<exists>e. restored (odd_records @ [JNull]) = Inl e" by blast
  have 4: "map role (projr (restored odd_records)) = [JStr ''system'', JStr ''assistant'']"
    "map type (projr (restored odd_records)) = [JUndefined, JStr ''chart'']"
    "map content (projr (restored odd_records)) = [JStr ''be brief'', JUndefined]"
    unfolding 2 by (simp_all add: odd_records_def opt_member_def)
  from h 1 3 4 show ?thesis by blast
qed

text \<open>
  Claim C3 as stated fails: a stored record of role \<open>system\<close> is reconstructed without
  any error, into a Message of role \<open>system\<close>.
\<close>

theorem restored_accepts_unknown_role:
  "restored [JObj [(''role'', JStr ''system''), (''content'', JStr ''be brief'')]]
   = Inr [\<lparr> role = JStr ''system'', content = JStr ''be brief'',
        type = JUndefined, policies = JUndefined, extracted = JUndefined,
        example = JUndefined, citation = JUndefined, policy_name = JUndefined,
        found = JUndefined \<rparr>]"
  by (simp add: restore_message_def opt_member_def)

section \<open>Session Manager: startup and session changes\<close>

text \<open>
  Claim C5. On startup with a non-empty id in the durable slot whose fetch fails, the
  slot is cleared and session creation is attempted from the page with the cleared slot
  (if creation fails as well, the slot stays empty and no session is active). When the
  creation call returns a new id, that id is stored in the slot and becomes the active
  session id, and the Conversation Store is exactly the default greeting.
\<close>

theorem initSession_restore_failure:
  assumes "sid \<noteq> []" and "getChatSession sid = Inl e"
  shows "initSession getChatSession created (initial_page (Some sid)) =
           create_session created ((initial_page (Some sid))\<lparr> storage := None \<rparr>) \<and>
         (\<forall>e'. created = Inl e' \<longrightarrow>
            storage (initSession getChatSession created (initial_page (Some sid))) = None \<and>
            sessionId (initSession getChatSession created (initial_page (Some sid))) = None) \<and>
         (\<forall>new. created = Inr new \<longrightarrow>
            storage (initSession getChatSession created (initial_page (Some sid))) = Some new \<and>
            sessionId (initSession getChatSession created (initial_page (Some sid))) = Some new \<and>
            messages (initSession getChatSession created (initial_page (Some sid))) = [GREETING] \<and>
            sessionLoading (initSession getChatSession created (initial_page (Some sid))) = False)"
  using assms
  by (simp add: initSession_def restore_attempt_def create_session_def initial_page_def Let_def)

text \<open>
  The theorem above with the slot holding \<open>old\<close>, a backend that rejects every fetch,
  and a creation call that returns \<open>new\<close>.
\<close>

theorem initSession_restore_failure_witness:
  "''old'' \<noteq> [] \<and> failing_getChatSession ''old'' = Inl NetworkError \<and>
   storage (initSession failing_getChatSession (Inr ''new'') (initial_page (Some ''old''))) = Some ''new'' \<and>
   sessionId (initSession failing_getChatSession (Inr ''new'') (initial_page (Some ''old''))) = Some ''new'' \<and>
   messages (initSession failing_getChatSession (Inr ''new'') (initial_page (Some ''old''))) = [GREETING] \<and>
   storage (initSession failing_getChatSession (Inl NetworkError) (initial_page (Some ''old''))) = None"
proof -
  have h1: "''old'' \<noteq> []" by simp
  have h2: "failing_getChatSession ''old'' = Inl NetworkError"
    by (simp add: failing_getChatSession_def)
  from initSession_restore_failure
      [where getChatSession = failing_getChatSession and created = "Inr ''new''", OF h1 h2]
    initSession_restore_failure
      [where getChatSession = failing_getChatSession and created = "Inl NetworkError", OF h1 h2] h1 h2
  show ?thesis by blast
qed

text \<open>
  A session switch that replaces the Conversation Store clears the Selection Set and
  the comparison result, and so does a session creation that succeeds.
\<close>

lemma switchSession_clears_selection:
  "messages (switchSession sid fetched st) \<noteq> messages st \<Longrightarrow>
   selected (switchSession sid fetched st) = [] \<and> compareResult (switchSession sid fetched st) = JNull"
  by (auto simp: switchSession_def Let_def split: sum.splits if_splits)

lemma switchSession_success_clears_selection:
  "fetched = Inr msgs \<Longrightarrow> \<forall>m\<in>set msgs. \<not> nullish m \<Longrightarrow>
   selected (switchSession sid fetched st) = [] \<and> compareResult (switchSession sid fetched st) = JNull \<and>
   sessionId (switchSession sid fetched st) = Some sid \<and> storage (switchSession sid fetched st) = Some sid"
  using restored_all_ok [of msgs]
  by (auto simp: switchSession_def Let_def split: sum.splits if_splits)

lemma startNewSession_success_clears_selection:
  "selected (startNewSession (Inr new) st) = [] \<and> compareResult (startNewSession (Inr new) st) = JNull \<and>
   messages (startNewSession (Inr new) st) = [GREETING]"
  by (simp add: startNewSession_def)

text \<open>
  Claim C4 at the creation-failure fallback of \<open>startNewSession\<close>. With two policies
  selected and a comparison shown, a creation call that rejects resets the Conversation
  Store to the default greeting and leaves both the Selection Set and the comparison
  result as they were.
\<close>

theorem startNewSession_failure_keeps_selection:
  "messages comparing_page \<noteq> [GREETING] \<and>
   messages (startNewSession (Inl NetworkError) comparing_page) = [GREETING] \<and>
   selected (startNewSession (Inl NetworkError) comparing_page) = [(''p1'', ''Plan A''), (''p2'', ''Plan B'')] \<and>
   compareResult (startNewSession (Inl NetworkError) comparing_page) =
     JObj [(''policies'', JArr [JStr ''p1'', JStr ''p2''])]"
  by (simp add: startNewSession_def comparing_page_def ready_page_def initial_page_def)

section \<open>Dispatch Router: sends and their outcomes\<close>

lemmas trim_eval = trim_def ascii_space_def space2_def space3_def

lemma trim_more: "trim ''more'' = ''more''"
  by (simp add: trim_eval)

text \<open>
  White space beyond ASCII is stripped as well: a no-break space and an ideographic
  space in front, a line separator and a byte-order mark behind; white space alone
  trims to the empty text; the rupee sign (\<open>E2 82 B9\<close>) is no white space.
\<close>

lemma trim_unicode:
  "trim ([CHR 0xC2, CHR 0xA0, CHR 0xE3, CHR 0x80, CHR 0x80] @ ''more''
         @ [CHR 0xE2, CHR 0x80, CHR 0xA8, CHR 0xEF, CHR 0xBB, CHR 0xBF]) = ''more''"
  "trim [CHR 0xC2, CHR 0xA0] = []"
  "trim [CHR 0x20, CHR 0xE2, CHR 0x80, CHR 0x83, CHR 0x0A] = []"
  "trim ([CHR 0xE2, CHR 0x82, CHR 0xB9] @ ''18k'') = [CHR 0xE2, CHR 0x82, CHR 0xB9] @ ''18k''"
  by (simp_all add: trim_eval)

lemma ready_page_start:
  "sendMessage_start (Some ''more'') ready_page =
     (ready_page\<lparr> input := [], messages := messages ready_page @ [user_message ''more''], loading := True \<rparr>,
      Some (SendChatMessage ''s1'' ''more''))"
  by (simp add: sendMessage_start_def ready_page_def initial_page_def trim_more Let_def)

lemma send_success_ids:
  "\<not> nullish data \<Longrightarrow>
   send_success data st =
     Inr ((if truthy (opt_member (field data ''uploaded_policy_ids'') ''length'')
           then st\<lparr> sessionPolicyIds := field data ''uploaded_policy_ids'' \<rparr> else st)
          \<lparr> messages := messages st @ [assistant_message data] \<rparr>)"
  by (simp add: send_success_def Let_def)

lemma sendMessage_resolve_messages:
  "messages (sendMessage_resolve outcome st) = messages st @ [reply_message outcome]"
  by (simp add: sendMessage_resolve_def send_success_def reply_message_def Let_def split: sum.splits)

lemma sendMessage_resolve_loading:
  "loading (sendMessage_resolve outcome st) = False"
  by (simp add: sendMessage_resolve_def send_success_def Let_def split: sum.splits)

lemma sendMessage_start_sets_flag:
  "sendMessage_start t1 st = (st1, Some rq) \<Longrightarrow> loading st1"
  by (auto simp: sendMessage_start_def Let_def split: if_splits)

text \<open>\<open>switchSession\<close> begins with \<open>setLoading(false)\<close>, whatever the fetch returns.\<close>

lemma switchSession_resets_flag:
  "loading (switchSession sid fetched st) = False"
  by (simp add: switchSession_def Let_def split: sum.splits)

lemma trim_again: "trim ''again'' = ''again''"
  by (simp add: trim_eval)

lemma ready_page_fields:
  "messages ready_page = [GREETING]" "loading ready_page = False"
  "sessionId ready_page = Some ''s1''" "sessionPolicyIds ready_page = JArr [JStr ''p1'']"
  by (simp_all add: ready_page_def initial_page_def)


lemma sendMessage_start_blocked:
  "loading st \<Longrightarrow> sendMessage_start text st = (st, None)"
  by (simp add: sendMessage_start_def Let_def)

lemma sendMessage_start_issued:
  "sendMessage_start text st = (st1, Some rq) \<Longrightarrow>
   st1 = st\<lparr> input := [],
          messages := messages st @ [user_message (trim (case text of None \<Rightarrow> input st | Some t \<Rightarrow> t))],
          loading := True \<rparr>"
  by (auto simp: sendMessage_start_def Let_def split: if_splits)



text \<open>
  With the flag set, an event that keeps the flag leaves it set and issues no call; if
  it keeps the store as well, the transcript is unchanged.
\<close>

lemma step_flag:
  "loading st \<Longrightarrow> keeps_flag ev \<Longrightarrow>
   loading (fst (step ev st)) \<and> snd (step ev st) = [] \<and>
   (keeps_store ev \<longrightarrow> messages (fst (step ev st)) = messages st)"
proof (cases ev)
  case (Send t)
  assume "loading st"
  then show ?thesis unfolding Send by (simp add: sendMessage_start_blocked)
next
  case (NewSession created)
  assume "loading st"
  then show ?thesis unfolding NewSession
    by (simp add: startNewSession_def Let_def split: sum.splits)
next
  case (Toggle pid name)
  assume "loading st"
  then show ?thesis unfolding Toggle by (simp add: toggleCompare_def)
next
  case (Typed s)
  assume "loading st"
  then show ?thesis unfolding Typed by simp
qed simp_all

lemma run_flag:
  "loading st \<Longrightarrow> \<forall>ev\<in>set evs. keeps_flag ev \<Longrightarrow>
   loading (fst (run evs st)) \<and> snd (run evs st) = [] \<and>
   ((\<forall>ev\<in>set evs. keeps_store ev) \<longrightarrow> messages (fst (run evs st)) = messages st)"
proof (induction evs arbitrary: st)
  case Nil
  then show ?case by simp
next
  case (Cons ev evs)
  from Cons.prems have kf: "keeps_flag ev" and rest: "\<forall>ev\<in>set evs. keeps_flag ev" by simp_all
  from step_flag [OF Cons.prems(1) kf] have
    s: "loading (fst (step ev st))" "snd (step ev st) = []"
      "keeps_store ev \<longrightarrow> messages (fst (step ev st)) = messages st" by simp_all
  from Cons.IH [OF s(1) rest] have
    r: "loading (fst (run evs (fst (step ev st))))" "snd (run evs (fst (step ev st))) = []"
      "(\<forall>ev\<in>set evs. keeps_store ev) \<longrightarrow>
         messages (fst (run evs (fst (step ev st)))) = messages (fst (step ev st))" by simp_all
  have f: "fst (run (ev # evs) st) = fst (run evs (fst (step ev st)))"
    and g: "snd (run (ev # evs) st) = snd (step ev st) @ snd (run evs (fst (step ev st)))"
    by (simp_all split: prod.splits)
  from s r show ?case unfolding f g by simp
qed

text \<open>
  Claim C2, as the code has it. For a send that is answered with a body, in either
  mode: when the body carries a non-empty array \<open>uploaded_policy_ids\<close>, the accumulated
  policy-id context becomes that array (the ids held before are replaced, not merged
  in); when the entry is absent, \<open>null\<close> or the empty array, the context is unchanged.
\<close>

theorem policy_ids_replaced_in_both_modes:
  assumes "sendMessage_start text st = (st1, Some rq)"
    and "backend rq = Inr data" and "\<not> nullish data"
  shows "(\<forall>ids. field data ''uploaded_policy_ids'' = JArr ids \<and> ids \<noteq> [] \<longrightarrow>
            sessionPolicyIds (fst (sendMessage backend text st)) = JArr ids) \<and>
         (field data ''uploaded_policy_ids'' \<in> {JUndefined, JNull, JArr []} \<longrightarrow>
            sessionPolicyIds (fst (sendMessage backend text st)) = sessionPolicyIds st)"
proof -
  from assms(1) have ids1: "sessionPolicyIds st1 = sessionPolicyIds st"
    by (auto simp: sendMessage_start_def Let_def split: if_splits)
  have res: "fst (sendMessage backend text st) = sendMessage_resolve (Inr data) st1"
    using assms(1,2) by (simp add: sendMessage_def)
  show ?thesis
    unfolding res using assms(3) ids1
    by (auto simp: sendMessage_resolve_def send_success_ids opt_member_def)
qed

text \<open>
  The theorem above on the persistent path, once with a reply that carries the id
  \<open>p2\<close> and once with a reply that carries none.
\<close>

theorem policy_ids_replaced_in_both_modes_witness:
  "sendMessage_start (Some ''more'') ready_page =
     (ready_page\<lparr> input := [], messages := messages ready_page @ [user_message ''more''], loading := True \<rparr>,
      Some (SendChatMessage ''s1'' ''more'')) \<and>
   \<not> nullish results_reply \<and>
   sessionPolicyIds (fst (sendMessage results_backend (Some ''more'') ready_page)) = JArr [JStr ''p2''] \<and>
   sessionPolicyIds (fst (sendMessage hello_backend (Some ''more'') ready_page))
     = JArr [JStr ''p1'']"
proof -
  note s = ready_page_start
  have n: "\<not> nullish results_reply" by (simp add: results_reply_def)
  have n2: "\<not> nullish (JObj [(''message'', JStr ''hello'')])" by simp
  have f: "field results_reply ''uploaded_policy_ids'' = JArr [JStr ''p2'']"
    by (simp add: results_reply_def)
  have f2: "field (JObj [(''message'', JStr ''hello'')]) ''uploaded_policy_ids'' = JUndefined"
    by simp
  have p: "sessionPolicyIds ready_page = JArr [JStr ''p1'']"
    by (simp add: ready_page_def)
  from policy_ids_replaced_in_both_modes [OF s, where backend = results_backend and data = results_reply] n f
  have 1: "sessionPolicyIds (fst (sendMessage results_backend (Some ''more'') ready_page)) = JArr [JStr ''p2'']"
    by (simp add: results_backend_def)
  from policy_ids_replaced_in_both_modes [OF s, where backend = hello_backend
      and data = "JObj [(''message'', JStr ''hello'')]"] n2 f2 p
  have 2: "sessionPolicyIds (fst (sendMessage hello_backend (Some ''more'') ready_page))
     = JArr [JStr ''p1'']"
    by (simp add: hello_backend_def)
  from s n 1 2 show ?thesis by blast
qed

text \<open>
  Claim C2 as stated fails: a send on the persistent path (the call issued is the
  persistent send to session \<open>s1\<close>) whose reply carries \<open>uploaded_policy_ids = [p2]\<close>
  changes the accumulated context, and the id \<open>p1\<close> held before is gone from it.
\<close>

theorem persistent_send_replaces_policy_ids:
  "snd (sendMessage results_backend (Some ''more'') ready_page) = [SendChatMessage ''s1'' ''more''] \<and>
   sessionPolicyIds ready_page = JArr [JStr ''p1''] \<and>
   sessionPolicyIds (fst (sendMessage results_backend (Some ''more'') ready_page)) = JArr [JStr ''p2'']"
  by (simp add: sendMessage_def sendMessage_start_def sendMessage_resolve_def send_success_def
      ready_page_def initial_page_def results_reply_def results_backend_def opt_member_def
      trim_more Let_def)

text \<open>
  Claim C6. For every send that passes the guard in stateless mode (the session id is
  \<open>null\<close> or empty), the one backend call issued is the stateless chat operation, with
  the role and content of every Message of the transcript in order, the user's new
  utterance as the last entry, and the accumulated policy-id context.
\<close>

theorem stateless_send_full_transcript:
  assumes "sessionId st \<in> {None, Some []}" and "\<not> loading st"
    and "userText = trim (case text of None \<Rightarrow> input st | Some t \<Rightarrow> t)" and "userText \<noteq> []"
  shows "snd (sendMessage_start text st) =
           Some (DiscoverChat (map (\<lambda>m. (role m, content m)) (messages st) @ [(JStr ''user'', JStr userText)])
                   (sessionPolicyIds st)) \<and>
         (\<forall>backend. snd (sendMessage backend text st) =
           [DiscoverChat (map (\<lambda>m. (role m, content m)) (messages st) @ [(JStr ''user'', JStr userText)])
                   (sessionPolicyIds st)])"
  using assms
  by (auto simp: sendMessage_def sendMessage_start_def user_message_def Let_def)

text \<open>
  The theorem above on a stateless page that already holds the greeting and one
  exchange, for an utterance typed with a no-break space in front and a space behind:
  the call carries all three turns and the new utterance, trimmed.
\<close>

theorem stateless_send_full_transcript_witness:
  "sessionId stateless_page \<in> {None, Some []} \<and> \<not> loading stateless_page \<and>
   ''more'' = trim (case Some padded_more of None \<Rightarrow> input stateless_page | Some t \<Rightarrow> t) \<and> ''more'' \<noteq> [] \<and>
   snd (sendMessage_start (Some padded_more) stateless_page) =
     Some (DiscoverChat [(JStr ''assistant'', JStr GREETING_content), (JStr ''user'', JStr ''family plan''),
                         (JStr ''assistant'', JStr ''Found 1 plan''), (JStr ''user'', JStr ''more'')]
             (JArr [JStr ''p2'']))"
proof -
  have h1: "sessionId stateless_page \<in> {None, Some []}" and h2: "\<not> loading stateless_page"
    by (simp_all add: stateless_page_def initial_page_def)
  have h3: "''more'' = trim (case Some padded_more of None \<Rightarrow> input stateless_page | Some t \<Rightarrow> t)"
    by (simp add: padded_more_def trim_eval)
  have h4: "''more'' \<noteq> []" by simp
  have m: "map (\<lambda>m. (role m, content m)) (messages stateless_page) =
      [(JStr ''assistant'', JStr GREETING_content), (JStr ''user'', JStr ''family plan''),
       (JStr ''assistant'', JStr ''Found 1 plan'')]"
    by (simp add: stateless_page_def initial_page_def GREETING_def user_message_def
        assistant_message_def results_reply_def coalesce_def)
  have p: "sessionPolicyIds stateless_page = JArr [JStr ''p2'']"
    by (simp add: stateless_page_def)
  from stateless_send_full_transcript [OF h1 h2 h3 h4]
  have "snd (sendMessage_start (Some padded_more) stateless_page) =
     Some (DiscoverChat (map (\<lambda>m. (role m, content m)) (messages stateless_page) @ [(JStr ''user'', JStr ''more'')])
             (sessionPolicyIds stateless_page))"
    by blast
  then have "snd (sendMessage_start (Some padded_more) stateless_page) =
     Some (DiscoverChat [(JStr ''assistant'', JStr GREETING_content), (JStr ''user'', JStr ''family plan''),
                         (JStr ''assistant'', JStr ''Found 1 plan''), (JStr ''user'', JStr ''more'')]
             (JArr [JStr ''p2'']))"
    by (simp add: m p)
  with h1 h2 h3 h4 show ?thesis by blast
qed




text \<open>
  Claim C9, as the code has it. While the in-flight flag is set, a call of
  \<open>sendMessage\<close> returns with the page unchanged and issues no backend call. A send
  that starts sets the flag, and the flag stays set through every event other than the
  settling of a send and \<open>switchSession\<close>: through any such events no call is issued
  and a further send cannot start, and the settling clears the flag. If in addition no
  event replaced the store, the transcript after the settling is the earlier one
  followed by the send's user turn and its reply, with nothing between them.
\<close>

theorem in_flight_guard:
  assumes "sendMessage_start t1 st0 = (st1, Some rq)" and "\<forall>ev\<in>set evs. keeps_flag ev"
  shows "(\<forall>st t. loading st \<longrightarrow> sendMessage_start t st = (st, None) \<and> step (Send t) st = (st, [])) \<and>
         loading st1 \<and> loading (fst (run evs st1)) \<and> snd (run evs st1) = [] \<and>
         sendMessage_start t2 (fst (run evs st1)) = (fst (run evs st1), None) \<and>
         loading (sendMessage_resolve outcome (fst (run evs st1))) = False \<and>
         ((\<forall>ev\<in>set evs. keeps_store ev) \<longrightarrow>
            messages (sendMessage_resolve outcome (fst (run evs st1))) =
              messages st0 @ [user_message (trim (case t1 of None \<Rightarrow> input st0 | Some t \<Rightarrow> t)),
                              reply_message outcome])"
proof -
  note st1 = sendMessage_start_issued [OF assms(1)]
  have l: "loading st1" by (simp add: st1)
  from run_flag [OF l assms(2)] have
    r: "loading (fst (run evs st1))" "snd (run evs st1) = []"
      "(\<forall>ev\<in>set evs. keeps_store ev) \<longrightarrow> messages (fst (run evs st1)) = messages st1" by simp_all
  have m: "messages st1 = messages st0 @ [user_message (trim (case t1 of None \<Rightarrow> input st0 | Some t \<Rightarrow> t))]"
    by (simp add: st1)
  have g: "\<forall>st t. loading st \<longrightarrow> sendMessage_start t st = (st, None) \<and> step (Send t) st = (st, [])"
    by (simp add: sendMessage_start_blocked)
  from l r m g show ?thesis
    by (simp add: sendMessage_start_blocked sendMessage_resolve_messages sendMessage_resolve_loading)
qed

text \<open>
  The theorem above after a first send \<open>more\<close> on the persistent path, with typing, a
  send of the typed text, a toggle and one more send before the reply: no call is
  issued by any of them, the flag is still set, and the reply lands right after the
  first user turn.
\<close>

theorem in_flight_guard_witness:
  "sendMessage_start (Some ''more'') ready_page =
     (ready_page\<lparr> input := [], messages := messages ready_page @ [user_message ''more''], loading := True \<rparr>,
      Some (SendChatMessage ''s1'' ''more'')) \<and>
   map keeps_flag quiet_events = [True, True, True, True] \<and>
   map keeps_store quiet_events = [True, True, True, True] \<and>
   snd (run quiet_events (fst (sendMessage_start (Some ''more'') ready_page))) = [] \<and>
   loading (fst (run quiet_events (fst (sendMessage_start (Some ''more'') ready_page)))) \<and>
   messages (sendMessage_resolve (Inr results_reply)
      (fst (run quiet_events (fst (sendMessage_start (Some ''more'') ready_page))))) =
     [GREETING, user_message ''more'', assistant_message results_reply]"
proof -
  note s = ready_page_start
  let ?st1 = "fst (sendMessage_start (Some ''more'') ready_page)"
  have s': "sendMessage_start (Some ''more'') ready_page = (?st1, Some (SendChatMessage ''s1'' ''more''))"
    by (simp add: s)
  have kf: "\<forall>ev\<in>set quiet_events. keeps_flag ev" and ks: "\<forall>ev\<in>set quiet_events. keeps_store ev"
    and kf': "map keeps_flag quiet_events = [True, True, True, True]"
    and ks': "map keeps_store quiet_events = [True, True, True, True]"
    by (simp_all add: quiet_events_def)
  have m: "messages ready_page = [GREETING]" by (simp add: ready_page_fields)
  have rp: "reply_message (Inr results_reply) = assistant_message results_reply"
    by (simp add: reply_message_def results_reply_def)
  from in_flight_guard [OF s' kf, where outcome = "Inr results_reply"] ks
  have 1: "snd (run quiet_events ?st1) = []" and 2: "loading (fst (run quiet_events ?st1))"
    and 3: "messages (sendMessage_resolve (Inr results_reply) (fst (run quiet_events ?st1))) =
              messages ready_page @ [user_message (trim (case Some ''more'' of None \<Rightarrow> input ready_page | Some t \<Rightarrow> t)),
                              reply_message (Inr results_reply)]"
    by blast+
  from 3 have 4: "messages (sendMessage_resolve (Inr results_reply) (fst (run quiet_events ?st1))) =
     [GREETING, user_message ''more'', assistant_message results_reply]"
    by (simp add: m rp trim_more)
  from s kf' ks' 1 2 4 show ?thesis by blast
qed

text \<open>
  Claim C9 as stated fails: a send \<open>more\<close> on session \<open>s1\<close>, a switch to session \<open>s2\<close>
  while that call is awaited, then a send \<open>again\<close>. The second send starts before the
  first has settled: it appends its user turn and issues its own call; and the reply
  to the first send then lands after the second send's user turn.
\<close>

theorem switch_lets_second_send_start:
  "snd (run switch_then_send ready_page) = [SendChatMessage ''s1'' ''more'', SendChatMessage ''s2'' ''again''] \<and>
   messages (fst (run switch_then_send ready_page)) = [GREETING, user_message ''again''] \<and>
   messages (fst (run (switch_then_send @ [Resolve (Inr results_reply)]) ready_page)) =
     [GREETING, user_message ''again'', assistant_message results_reply]"
  by (simp add: switch_then_send_def ready_page_fields sendMessage_resolve_def send_success_def
      sendMessage_start_def switchSession_def trim_more trim_again results_reply_def opt_member_def
      Let_def)

section \<open>Selection Set: bound and distinctness\<close>

lemma find_id_None: "find (\<lambda>p. fst p = pid) prev = None \<longleftrightarrow> pid \<notin> fst ` set prev"
  by (force simp: find_None_iff)

lemma toggle_present:
  "pid \<in> fst ` set prev \<Longrightarrow> toggle pid name prev = filter (\<lambda>p. fst p \<noteq> pid) prev"
  using find_id_None [of pid prev] by (cases "find (\<lambda>p. fst p = pid) prev") (auto simp: toggle_def)

lemma toggle_absent:
  "pid \<notin> fst ` set prev \<Longrightarrow>
   toggle pid name prev = (if length prev \<ge> 3 then prev else prev @ [(pid, name)])"
  using find_id_None [of pid prev] by (simp add: toggle_def)

lemma toggle_invariant:
  assumes "length prev \<le> 3" and "distinct (map fst prev)"
  shows "length (toggle pid name prev) \<le> 3 \<and> distinct (map fst (toggle pid name prev))"
proof (cases "pid \<in> fst ` set prev")
  case True
  have "length (filter (\<lambda>p. fst p \<noteq> pid) prev) \<le> length prev" by simp
  with assms(1) have "length (filter (\<lambda>p. fst p \<noteq> pid) prev) \<le> 3" by linarith
  with assms(2) True show ?thesis
    by (simp add: toggle_present distinct_map_filter)
next
  case False
  with assms show ?thesis by (auto simp: toggle_absent)
qed

lemma toggles_invariant:
  "length prev \<le> 3 \<Longrightarrow> distinct (map fst prev) \<Longrightarrow>
   length (toggles calls prev) \<le> 3 \<and> distinct (map fst (toggles calls prev))"
proof (induction calls arbitrary: prev)
  case Nil
  then show ?case by simp
next
  case (Cons c calls)
  obtain pid name where c: "c = (pid, name)" by (cases c)
  from toggle_invariant [OF Cons.prems] Cons.IH show ?case
    unfolding c by simp
qed

lemma four_picks_result:
  "toggles four_picks [] = [(''p1'', ''Plan A''), (''p2'', ''Plan B''), (''p3'', ''Plan C'')]"
  by (simp add: four_picks_def toggle_def)

lemma one_pick_result: "toggles one_pick [] = [(''p1'', ''Plan A'')]"
  by (simp add: one_pick_def toggle_def)

text \<open>
  Claim C8. Let \<open>sel\<close> be the Selection Set after any sequence of toggle calls from the
  empty set. It has at most 3 members and no duplicate id; and the next toggle of an id
  removes it when it is present (whatever the size), appends it when it is absent and
  the size is below 3, and leaves the set unchanged when it is absent and the size is 3.
\<close>

theorem toggle_bounded_distinct:
  assumes "sel = toggles calls []"
  shows "length sel \<le> 3 \<and> distinct (map fst sel) \<and>
         (pid \<in> fst ` set sel \<longrightarrow>
            toggle pid name sel = filter (\<lambda>p. fst p \<noteq> pid) sel \<and> pid \<notin> fst ` set (toggle pid name sel)) \<and>
         (pid \<notin> fst ` set sel \<and> length sel < 3 \<longrightarrow> toggle pid name sel = sel @ [(pid, name)]) \<and>
         (pid \<notin> fst ` set sel \<and> length sel = 3 \<longrightarrow> toggle pid name sel = sel)"
proof -
  have inv: "length sel \<le> 3 \<and> distinct (map fst sel)"
    unfolding assms using toggles_invariant [of "[]" calls] by simp
  have rem: "pid \<notin> fst ` set (filter (\<lambda>p. fst p \<noteq> pid) sel)" by auto
  from inv rem show ?thesis
    by (auto simp: toggle_present toggle_absent)
qed

text \<open>
  The theorem above after four picks (the fourth was rejected): toggling the present
  \<open>p2\<close> removes it, toggling a fifth id changes nothing; and after one pick, toggling
  \<open>p2\<close> adds it.
\<close>

theorem toggle_bounded_distinct_witness:
  "toggles four_picks [] = [(''p1'', ''Plan A''), (''p2'', ''Plan B''), (''p3'', ''Plan C'')] \<and>
   toggle ''p2'' ''Plan B'' (toggles four_picks []) = [(''p1'', ''Plan A''), (''p3'', ''Plan C'')] \<and>
   toggle ''p5'' ''Plan E'' (toggles four_picks []) = toggles four_picks [] \<and>
   toggle ''p2'' ''Plan B'' (toggles one_pick []) = [(''p1'', ''Plan A''), (''p2'', ''Plan B'')]"
proof -
  note r = four_picks_result and r1 = one_pick_result
  have a: "''p2'' \<in> fst ` set (toggles four_picks [])" by (simp add: r)
  have b: "''p5'' \<notin> fst ` set (toggles four_picks []) \<and> length (toggles four_picks []) = 3"
    by (simp add: r)
  have c: "''p2'' \<notin> fst ` set (toggles one_pick []) \<and> length (toggles one_pick []) < 3"
    by (simp add: r1)
  from toggle_bounded_distinct [OF refl, where pid = "''p2''" and calls = four_picks and name = "''Plan B''"] a
  have 1: "toggle ''p2'' ''Plan B'' (toggles four_picks []) = filter (\<lambda>p. fst p \<noteq> ''p2'') (toggles four_picks [])"
    by blast
  from toggle_bounded_distinct [OF refl, where pid = "''p5''" and calls = four_picks and name = "''Plan E''"] b
  have 2: "toggle ''p5'' ''Plan E'' (toggles four_picks []) = toggles four_picks []"
    by blast
  from toggle_bounded_distinct [OF refl, where pid = "''p2''" and calls = one_pick and name = "''Plan B''"] c
  have 3: "toggle ''p2'' ''Plan B'' (toggles one_pick []) = toggles one_pick [] @ [(''p2'', ''Plan B'')]"
    by blast
  from 1 2 3 show ?thesis by (simp add: r r1)
qed

text \<open>
  Claim C10. Every call of \<open>toggleCompare\<close> leaves the comparison result empty
  (\<open>null\<close>), whatever the updater does to the Selection Set: add, remove or reject.
\<close>

theorem toggleCompare_resets_comparison:
  "compareResult (toggleCompare pid name st) = JNull"
  by (simp add: toggleCompare_def)

end
